theory Spec2Isabelle
  imports Main "HOL-Library.Sublist"
begin

section \<open>The foreign-function bridge of geth-utils: lib.go\<close>

text \<open>
  \<^verbatim>\<open>lib.go\<close> exports two functions through cgo, \<^verbatim>\<open>CreateTrace\<close> and \<^verbatim>\<open>FreeString\<close>,
  and has a \<^verbatim>\<open>main\<close> that traces one fixed configuration. The functions it calls are
  not in this file: \<^verbatim>\<open>json.Unmarshal\<close>, \<^verbatim>\<open>json.MarshalIndent\<close> and \<^verbatim>\<open>fmt.Sprintf\<close> of Go's
  library, \<^verbatim>\<open>gethutil.Trace\<close> of the tracer package, and \<^verbatim>\<open>C.GoString\<close>, \<^verbatim>\<open>C.CString\<close>,
  \<^verbatim>\<open>C.free\<close> of cgo and libc. The decoder, the tracer and the encoder are parameters of
  the model; the C strings live in an explicit store of allocated blocks.
\<close>

subsection \<open>Go errors and the one formatting verb lib.go uses\<close>

text \<open>A Go \<^verbatim>\<open>error\<close> is observed by lib.go only through its \<^verbatim>\<open>Error()\<close> text.\<close>

datatype error = Error (message: string)

text \<open>
  \<^verbatim>\<open>fmt.Sprintf(format, err)\<close> for the formats of lib.go: text with a single \<^verbatim>\<open>%v\<close>, which
  is replaced by \<^verbatim>\<open>err.Error()\<close>. Other verbs and a format without a verb are outside
  what lib.go writes and are copied unchanged.
\<close>

fun Sprintf :: "string \<Rightarrow> error \<Rightarrow> string" where
  "Sprintf [] err = []"
| "Sprintf [c] err = [c]"
| "Sprintf (c # d # fs) err =
     (if c = CHR ''%'' \<and> d = CHR ''v'' then message err @ fs
      else c # Sprintf (d # fs) err)"

subsection \<open>C strings in the C heap\<close>

text \<open>
  A \<^verbatim>\<open>*C.char\<close> is the base address of a block; address 0 is the null pointer. The heap
  lists the live blocks with their bytes, the terminating NUL byte included.
\<close>

type_synonym addr = nat

definition NUL :: char where
  "NUL = CHR 0x00"

text \<open>
  The calls lib.go makes to its collaborators, in the order made. The list is a record of
  what ran; no function of the model reads it.
\<close>

datatype call = JsonUnmarshal | GethutilTrace | JsonMarshalIndent

record state =
  heap :: "(addr \<times> string) list"
  invoked :: "call list"

definition called :: "call \<Rightarrow> state \<Rightarrow> state" where
  "called c st = st\<lparr>invoked := invoked st @ [c]\<rparr>"

text \<open>\<^verbatim>\<open>malloc\<close> returns an address that is neither null nor live: here, one past the largest.\<close>

definition fresh_addr :: "(addr \<times> string) list \<Rightarrow> addr" where
  "fresh_addr h = Suc (fold max (map fst h) 0)"

text \<open>
  \<^verbatim>\<open>C.CString(s)\<close> copies the Go string into a newly allocated block and appends NUL.
  (When \<^verbatim>\<open>malloc\<close> fails cgo crashes the process; the model's heap is unbounded.)
\<close>

definition C_CString :: "string \<Rightarrow> state \<Rightarrow> addr \<times> state" where
  "C_CString s st =
     (let p = fresh_addr (heap st)
      in (p, st\<lparr>heap := (p, s @ [NUL]) # heap st\<rparr>))"

text \<open>
  \<^verbatim>\<open>C.GoString(p)\<close> is the empty string for the null pointer, and otherwise the bytes at
  \<^verbatim>\<open>p\<close> up to the first NUL. Reading a pointer that is not live, or a block with no NUL,
  is undefined behaviour in C: \<open>None\<close>.
\<close>

definition C_GoString :: "addr \<Rightarrow> state \<Rightarrow> string option" where
  "C_GoString p st =
     (if p = 0 then Some []
      else (case map_of (heap st) p of
              None \<Rightarrow> None
            | Some bs \<Rightarrow> if NUL \<in> set bs then Some (takeWhile (\<lambda>c. c \<noteq> NUL) bs) else None))"

text \<open>
  \<^verbatim>\<open>C.free(p)\<close> does nothing for the null pointer and releases the block at a live
  address. Freeing any other address is undefined behaviour in C: \<open>None\<close>.
\<close>

definition C_free :: "addr \<Rightarrow> state \<Rightarrow> state option" where
  "C_free p st =
     (if p = 0 then Some st
      else if p \<in> fst ` set (heap st)
           then Some (st\<lparr>heap := filter (\<lambda>b. fst b \<noteq> p) (heap st)\<rparr>)
           else None)"

subsection \<open>The collaborators\<close>

text \<open>
  \<open>'cfg\<close> is \<^verbatim>\<open>gethutil.TraceConfig\<close> and \<open>'res\<close> is \<^verbatim>\<open>*gethutil.ExecutionResult\<close>; both
  types are declared outside lib.go. Each collaborator returns a value or an error
  (\<open>Inl\<close>), as its Go signature says:
  \<^item> \<open>json_Unmarshal s\<close> is \<^verbatim>\<open>json.Unmarshal([]byte(s), &config)\<close> with the decoded \<^verbatim>\<open>config\<close>;
  \<^item> \<open>gethutil_Trace config\<close> is \<^verbatim>\<open>gethutil.Trace(config)\<close>;
  \<^item> \<open>json_MarshalIndent v prefix indent\<close> is \<^verbatim>\<open>json.MarshalIndent(v, prefix, indent)\<close>.
\<close>

record ('cfg, 'res) collaborators =
  json_Unmarshal :: "string \<Rightarrow> error + 'cfg"
  gethutil_Trace :: "'cfg \<Rightarrow> error + 'res list"
  json_MarshalIndent :: "'res list \<Rightarrow> string \<Rightarrow> string \<Rightarrow> error + string"

subsection \<open>CreateTrace and FreeString\<close>

definition CreateTrace ::
  "('cfg, 'res) collaborators \<Rightarrow> addr \<Rightarrow> state \<Rightarrow> (addr \<times> state) option" where
  \<open>CreateTrace lib configStr st =
     (case C_GoString configStr st of
        None \<Rightarrow> None
      | Some s \<Rightarrow>
          (let st = called JsonUnmarshal st in
           case json_Unmarshal lib s of
             Inl err \<Rightarrow>
               Some (C_CString (Sprintf ''Failed to unmarshal config, err: %v'' err) st)
           | Inr config \<Rightarrow>
               (let st = called GethutilTrace st in
                case gethutil_Trace lib config of
                  Inl err \<Rightarrow>
                    Some (C_CString (Sprintf ''Failed to run Trace, err: %v'' err) st)
                | Inr executionResults \<Rightarrow>
                    (let st = called JsonMarshalIndent st in
                     case json_MarshalIndent lib executionResults '''' ''  '' of
                       Inl err \<Rightarrow>
                         Some (C_CString
                           (Sprintf ''Failed to marshal []ExecutionResult, err: %v'' err) st)
                     | Inr bytes \<Rightarrow> Some (C_CString bytes st)))))\<close>

definition FreeString :: "addr \<Rightarrow> state \<Rightarrow> state option" where
  "FreeString str st = C_free str st"

subsection \<open>The self-test: main\<close>

definition selftest_config :: string where
  \<open>selftest_config =
     ''{"chain_id":"0x53a","history_hashes":[],"block_constants":{"coinbase":"0x0000000'' @
     ''000000000000000000000000000000000","timestamp":"0x75bcd15","number":"0xcafe","di'' @
     ''fficulty":"0x200000","gas_limit":"0x2386f26fc10000","base_fee":"0x0"},"accounts"'' @
     '':{"0x000000000000000000000000000000000cafe222":{"address":"0x0000000000000000000'' @
     ''00000000000000cafe222","nonce":"0x0","balance":"0x8ac7230489e80000","code":"0x",'' @
     ''"storage":{}},"0x000000000000000000000000000000000cafe111":{"address":"0x0000000'' @
     ''00000000000000000000000000cafe111","nonce":"0x0","balance":"0x8ac7230489e80000",'' @
     ''"code":"0x0061736d0100000001080260017f00600000029f010803656e76095f65766d5f73746f'' @
     ''70000103656e760c5f65766d5f61646472657373000003656e760b5f65766d5f63616c6c65720000'' @
     ''03656e760d5f65766d5f6761736c696d6974000003656e760c5f65766d5f62617365666565000003'' @
     ''656e760f5f65766d5f646966666963756c7479000003656e760b5f65766d5f6f726967696e000003'' @
     ''656e76135f65766d5f63616c6c5f646174615f73697a650000030201000503010001071102046d61'' @
     ''696e0008066d656d6f727902000a0a0108004100100510000b","storage":{}}},"transactions'' @
     ''":[{"from":"0x000000000000000000000000000000000cafe222","to":"0x0000000000000000'' @
     ''00000000000000000cafe111","nonce":"0x0","gas_limit":"0xf4240","value":"0x0","gas'' @
     ''_price":"0x1","gas_fee_cap":"0x0","gas_tip_cap":"0x0","call_data":"0x","access_l'' @
     ''ist":[],"v":0,"r":"0x0","s":"0x0"}],"logger_config":{"EnableMemory":true,"Disabl'' @
     ''eStack":false,"DisableStorage":false,"EnableReturnData":true}}''\<close>

text \<open>
  \<^verbatim>\<open>main\<close> either panics with the error of the failing step, or writes the encoded
  results and a newline with the builtin \<^verbatim>\<open>println\<close> and returns.
\<close>

datatype outcome = Panicked error | Printed string

definition main :: "('cfg, 'res) collaborators \<Rightarrow> outcome" where
  \<open>main lib =
     (case json_Unmarshal lib selftest_config of
        Inl err \<Rightarrow> Panicked err
      | Inr config \<Rightarrow>
          (case gethutil_Trace lib config of
             Inl err \<Rightarrow> Panicked err
           | Inr executionResults \<Rightarrow>
               (case json_MarshalIndent lib executionResults '''' ''  '' of
                  Inl err \<Rightarrow> Panicked err
                | Inr bytes \<Rightarrow> Printed (bytes @ [CHR 0x0A]))))\<close>

subsection \<open>An instance of the collaborators\<close>

text \<open>
  A small decoder, tracer and encoder, at which the theorems below are instantiated.
  \<open>failing\<close> selects the step that returns an error; the decoder also rejects the empty text.
\<close>

definition example_lib :: "call option \<Rightarrow> (string, nat) collaborators" where
  "example_lib failing =
     \<lparr>json_Unmarshal = (\<lambda>s.
        if failing = Some JsonUnmarshal \<or> s = []
        then Inl (Error ''unexpected end of JSON input'') else Inr s),
      gethutil_Trace = (\<lambda>config.
        if failing = Some GethutilTrace
        then Inl (Error ''insufficient funds'') else Inr [length config]),
      json_MarshalIndent = (\<lambda>executionResults prefix indent.
        if failing = Some JsonMarshalIndent
        then Inl (Error ''unsupported value'') else Inr ''[]'')\<rparr>"

definition example_state :: state where
  \<open>example_state = \<lparr>heap = [(1, ''{}'' @ [NUL])], invoked = []\<rparr>\<close>

section \<open>Properties\<close>

subsection \<open>Allocation\<close>

lemma fold_max_ge: "m \<le> fold max xs (m::nat)"
  by (induction xs arbitrary: m) (auto intro: order_trans [OF max.cobounded2])

lemma fold_max_mem: "x \<in> set xs \<Longrightarrow> x \<le> fold max xs (m::nat)"
proof (induction xs arbitrary: m)
  case Nil
  then show ?case by simp
next
  case (Cons y ys)
  show ?case
  proof (cases "x = y")
    case True
    have "y \<le> max y m" by simp
    also have "\<dots> \<le> fold max ys (max y m)" by (rule fold_max_ge)
    finally show ?thesis using True by simp
  next
    case False
    with Cons show ?thesis by simp
  qed
qed

lemma fresh_addr_not_live: "fresh_addr h \<notin> fst ` set h"
proof
  assume "fresh_addr h \<in> fst ` set h"
  then have "fresh_addr h \<in> set (map fst h)" by simp
  then have "fresh_addr h \<le> fold max (map fst h) 0" by (rule fold_max_mem)
  then show False by (simp add: fresh_addr_def)
qed

lemma fresh_addr_not_null: "fresh_addr h \<noteq> 0"
  by (simp add: fresh_addr_def)

lemma heap_called [simp]: "heap (called c st) = heap st"
  by (simp add: called_def)

lemma invoked_called [simp]: "invoked (called c st) = invoked st @ [c]"
  by (simp add: called_def)

lemma C_CString_reply:
  assumes "C_CString text st1 = (p, st')"
  shows "p \<noteq> 0" and "p \<notin> fst ` set (heap st1)"
    and "heap st' = (p, text @ [NUL]) # heap st1"
    and "map_of (heap st') p = Some (text @ [NUL])"
    and "invoked st' = invoked st1"
  using assms fresh_addr_not_live [of "heap st1"] fresh_addr_not_null [of "heap st1"]
  by (auto simp: C_CString_def Let_def)

lemma C_GoString_live:
  assumes "C_GoString p st = Some s"
  shows "p = 0 \<or> p \<in> fst ` set (heap st)"
proof (cases "p = 0")
  case True
  then show ?thesis by simp
next
  case False
  with assms have "map_of (heap st) p \<noteq> None"
    by (auto simp: C_GoString_def split: option.splits)
  then show ?thesis by (simp add: map_of_eq_None_iff)
qed

lemma C_GoString_after_alloc:
  assumes "C_GoString p st = Some s" and "heap st' = (q, bs) # heap st"
    and "q \<notin> fst ` set (heap st)" and "q \<noteq> 0"
  shows "C_GoString p st' = Some s"
proof -
  from assms(1) have "p = 0 \<or> p \<in> fst ` set (heap st)" by (rule C_GoString_live)
  with assms(3,4) have "p = 0 \<or> p \<noteq> q" by auto
  with assms(1,2) show ?thesis by (auto simp: C_GoString_def)
qed

subsection \<open>The four paths of CreateTrace\<close>

lemma Sprintf_unmarshal:
  "Sprintf ''Failed to unmarshal config, err: %v'' err = ''Failed to unmarshal config, err: '' @ message err"
  by simp

lemma Sprintf_trace:
  "Sprintf ''Failed to run Trace, err: %v'' err = ''Failed to run Trace, err: '' @ message err"
  by simp

lemma Sprintf_marshal:
  "Sprintf ''Failed to marshal []ExecutionResult, err: %v'' err =
     ''Failed to marshal []ExecutionResult, err: '' @ message err"
  by simp

lemma CreateTrace_decode_failure:
  assumes "C_GoString configStr st = Some s" and "json_Unmarshal lib s = Inl err"
  shows "CreateTrace lib configStr st =
           Some (C_CString (''Failed to unmarshal config, err: '' @ message err)
                   (called JsonUnmarshal st))"
  using assms unfolding CreateTrace_def Let_def by (simp del: Sprintf.simps add: Sprintf_unmarshal)

lemma CreateTrace_trace_failure:
  assumes "C_GoString configStr st = Some s" and "json_Unmarshal lib s = Inr config"
    and "gethutil_Trace lib config = Inl err"
  shows "CreateTrace lib configStr st =
           Some (C_CString (''Failed to run Trace, err: '' @ message err)
                   (called GethutilTrace (called JsonUnmarshal st)))"
  using assms unfolding CreateTrace_def Let_def by (simp del: Sprintf.simps add: Sprintf_trace)

lemma CreateTrace_encode_failure:
  assumes "C_GoString configStr st = Some s" and "json_Unmarshal lib s = Inr config"
    and "gethutil_Trace lib config = Inr executionResults"
    and "json_MarshalIndent lib executionResults '''' ''  '' = Inl err"
  shows "CreateTrace lib configStr st =
           Some (C_CString (''Failed to marshal []ExecutionResult, err: '' @ message err)
                   (called JsonMarshalIndent (called GethutilTrace (called JsonUnmarshal st))))"
  using assms unfolding CreateTrace_def Let_def by (simp del: Sprintf.simps add: Sprintf_marshal)

lemma CreateTrace_success:
  assumes "C_GoString configStr st = Some s" and "json_Unmarshal lib s = Inr config"
    and "gethutil_Trace lib config = Inr executionResults"
    and "json_MarshalIndent lib executionResults '''' ''  '' = Inr bytes"
  shows "CreateTrace lib configStr st =
           Some (C_CString bytes
                   (called JsonMarshalIndent (called GethutilTrace (called JsonUnmarshal st))))"
  using assms unfolding CreateTrace_def Let_def by simp

lemma CreateTrace_replies:
  assumes "C_GoString configStr st = Some s"
  shows "\<exists>text calls. \<forall>st0 p. C_GoString p st0 = Some s \<longrightarrow>
           CreateTrace lib p st0 = Some (C_CString text (st0\<lparr>invoked := invoked st0 @ calls\<rparr>))"
proof (cases "json_Unmarshal lib s")
  case (Inl err)
  then show ?thesis
    by (intro exI [of _ "''Failed to unmarshal config, err: '' @ message err"] exI [of _ "[JsonUnmarshal]"])
       (simp add: CreateTrace_decode_failure called_def)
next
  case (Inr config)
  note cfg = this
  show ?thesis
  proof (cases "gethutil_Trace lib config")
    case (Inl err)
    with cfg show ?thesis
      by (intro exI [of _ "''Failed to run Trace, err: '' @ message err"]
            exI [of _ "[JsonUnmarshal, GethutilTrace]"])
         (simp add: CreateTrace_trace_failure called_def)
  next
    case (Inr executionResults)
    note rs = this
    show ?thesis
    proof (cases "json_MarshalIndent lib executionResults '''' ''  ''")
      case (Inl err)
      with cfg rs show ?thesis
        by (intro exI [of _ "''Failed to marshal []ExecutionResult, err: '' @ message err"]
              exI [of _ "[JsonUnmarshal, GethutilTrace, JsonMarshalIndent]"])
           (simp add: CreateTrace_encode_failure called_def)
    next
      case (Inr bytes)
      with cfg rs show ?thesis
        by (intro exI [of _ bytes] exI [of _ "[JsonUnmarshal, GethutilTrace, JsonMarshalIndent]"])
           (simp add: CreateTrace_success called_def)
    qed
  qed
qed

lemma CreateTrace_readable:
  assumes "CreateTrace lib configStr st = Some r"
  shows "\<exists>s. C_GoString configStr st = Some s"
  using assms by (cases "C_GoString configStr st") (simp_all add: CreateTrace_def)

subsection \<open>The bridge's contract\<close>

text \<open>
  C1. When the configuration text decodes, that is, when it is JSON of the TraceConfig shape,
  \<open>CreateTrace\<close> returns a C string that holds one of three things: exactly the bytes
  \<^verbatim>\<open>json.MarshalIndent\<close> produced for the tracer's results, the tracer's error after
  \<^verbatim>\<open>Failed to run Trace, err: \<close>, or the encoder's error after
  \<^verbatim>\<open>Failed to marshal []ExecutionResult, err: \<close>. The bridge passes the encoder's bytes on
  unchanged, so any property \<open>well_formed\<close> that the encoder guarantees of what it produces
  (a well-formed, indented JSON array) holds of the successful reply.
\<close>
theorem CreateTrace_valid_config:
  assumes "C_GoString configStr st = Some s"
    and "json_Unmarshal lib s = Inr config"
    and "\<forall>rs bytes. json_MarshalIndent lib rs '''' ''  '' = Inr bytes \<longrightarrow> well_formed bytes"
  shows "\<exists>p st' text.
           CreateTrace lib configStr st = Some (p, st') \<and>
           map_of (heap st') p = Some (text @ [NUL]) \<and>
           ((\<exists>rs. gethutil_Trace lib config = Inr rs \<and>
                  json_MarshalIndent lib rs '''' ''  '' = Inr text \<and> well_formed text) \<or>
            (\<exists>err. gethutil_Trace lib config = Inl err \<and>
                   text = ''Failed to run Trace, err: '' @ message err) \<or>
            (\<exists>rs err. gethutil_Trace lib config = Inr rs \<and>
                   json_MarshalIndent lib rs '''' ''  '' = Inl err \<and>
                   text = ''Failed to marshal []ExecutionResult, err: '' @ message err))"
proof (cases "gethutil_Trace lib config")
  case (Inl err)
  let ?text = "''Failed to run Trace, err: '' @ message err"
  obtain p st' where r: "C_CString ?text (called GethutilTrace (called JsonUnmarshal st)) = (p, st')"
    by (rule prod.exhaust)
  have "CreateTrace lib configStr st = Some (p, st')"
    using CreateTrace_trace_failure [OF assms(1,2) Inl] r by simp
  moreover have "map_of (heap st') p = Some (?text @ [NUL])"
    by (rule C_CString_reply(4) [OF r])
  ultimately show ?thesis using Inl by blast
next
  case (Inr rs)
  show ?thesis
  proof (cases "json_MarshalIndent lib rs '''' ''  ''")
    case (Inl err)
    let ?text = "''Failed to marshal []ExecutionResult, err: '' @ message err"
    obtain p st' where r: "C_CString ?text
        (called JsonMarshalIndent (called GethutilTrace (called JsonUnmarshal st))) = (p, st')"
      by (rule prod.exhaust)
    have "CreateTrace lib configStr st = Some (p, st')"
      using CreateTrace_encode_failure [OF assms(1,2) Inr Inl] r by simp
    moreover have "map_of (heap st') p = Some (?text @ [NUL])"
      by (rule C_CString_reply(4) [OF r])
    ultimately show ?thesis using Inr Inl by blast
  next
    case bytes: (Inr bytes)
    obtain p st' where r: "C_CString bytes
        (called JsonMarshalIndent (called GethutilTrace (called JsonUnmarshal st))) = (p, st')"
      by (rule prod.exhaust)
    have "CreateTrace lib configStr st = Some (p, st')"
      using CreateTrace_success [OF assms(1,2) Inr bytes] r by simp
    moreover have "map_of (heap st') p = Some (bytes @ [NUL])"
      by (rule C_CString_reply(4) [OF r])
    moreover have "well_formed bytes" using assms(3) bytes by blast
    ultimately show ?thesis using Inr bytes by blast
  qed
qed

theorem CreateTrace_valid_config_witness:
  \<open>C_GoString 1 example_state = Some ''{}'' \<and>
   json_Unmarshal (example_lib None) ''{}'' = Inr ''{}'' \<and>
   (\<exists>p st' text.
      CreateTrace (example_lib None) 1 example_state = Some (p, st') \<and>
      map_of (heap st') p = Some (text @ [NUL]) \<and>
      ((\<exists>rs. gethutil_Trace (example_lib None) ''{}'' = Inr rs \<and>
             json_MarshalIndent (example_lib None) rs '''' ''  '' = Inr text \<and> text = ''[]'') \<or>
       (\<exists>err. gethutil_Trace (example_lib None) ''{}'' = Inl err \<and>
              text = ''Failed to run Trace, err: '' @ message err) \<or>
       (\<exists>rs err. gethutil_Trace (example_lib None) ''{}'' = Inr rs \<and>
              json_MarshalIndent (example_lib None) rs '''' ''  '' = Inl err \<and>
              text = ''Failed to marshal []ExecutionResult, err: '' @ message err)))\<close>
proof -
  have h1: \<open>C_GoString 1 example_state = Some ''{}''\<close>
    by (simp add: C_GoString_def example_state_def NUL_def)
  have h2: \<open>json_Unmarshal (example_lib None) ''{}'' = Inr ''{}''\<close>
    by (simp add: example_lib_def)
  have h3: \<open>\<forall>rs bytes. json_MarshalIndent (example_lib None) rs '''' ''  '' = Inr bytes
              \<longrightarrow> bytes = ''[]''\<close>
    by (simp add: example_lib_def)
  show ?thesis
    using h1 h2 CreateTrace_valid_config [OF h1 h2, of "\<lambda>bytes. bytes = ''[]''", OF h3]
    by simp
qed

text \<open>
  C2. When the configuration text does not decode, \<open>CreateTrace\<close> returns a C string that
  holds \<^verbatim>\<open>Failed to unmarshal config, err: \<close> followed by the decoder's error. The only
  collaborator it has invoked is the decoder, and the reply is the same whatever the tracer
  is: the tracer is not run.
\<close>
theorem CreateTrace_malformed_config:
  assumes "C_GoString configStr st = Some s"
    and "json_Unmarshal lib s = Inl err"
  shows "\<exists>p st'.
           CreateTrace lib configStr st = Some (p, st') \<and>
           map_of (heap st') p = Some (''Failed to unmarshal config, err: '' @ message err @ [NUL]) \<and>
           invoked st' = invoked st @ [JsonUnmarshal] \<and>
           (\<forall>tracer. CreateTrace (lib\<lparr>gethutil_Trace := tracer\<rparr>) configStr st = Some (p, st'))"
proof -
  let ?text = "''Failed to unmarshal config, err: '' @ message err"
  obtain p st' where r: "C_CString ?text (called JsonUnmarshal st) = (p, st')"
    by (rule prod.exhaust)
  have "CreateTrace lib configStr st = Some (p, st')"
    using CreateTrace_decode_failure [OF assms] r by simp
  moreover have "map_of (heap st') p = Some (?text @ [NUL])"
    by (rule C_CString_reply(4) [OF r])
  moreover have "invoked st' = invoked st @ [JsonUnmarshal]"
    using C_CString_reply(5) [OF r] by simp
  moreover have "CreateTrace (lib\<lparr>gethutil_Trace := tracer\<rparr>) configStr st = Some (p, st')" for tracer
    using CreateTrace_decode_failure [of configStr st s "lib\<lparr>gethutil_Trace := tracer\<rparr>" err] assms r
    by simp
  ultimately show ?thesis by simp
qed

theorem CreateTrace_malformed_config_witness:
  \<open>C_GoString 0 example_state = Some [] \<and>
   json_Unmarshal (example_lib None) [] = Inl (Error ''unexpected end of JSON input'') \<and>
   (\<exists>p st'.
      CreateTrace (example_lib None) 0 example_state = Some (p, st') \<and>
      map_of (heap st') p =
        Some (''Failed to unmarshal config, err: unexpected end of JSON input'' @ [NUL]) \<and>
      invoked st' = invoked example_state @ [JsonUnmarshal] \<and>
      (\<forall>tracer. CreateTrace (example_lib None\<lparr>gethutil_Trace := tracer\<rparr>) 0 example_state
                  = Some (p, st')))\<close>
proof -
  have h1: "C_GoString 0 example_state = Some []"
    by (simp add: C_GoString_def)
  have h2: \<open>json_Unmarshal (example_lib None) [] = Inl (Error ''unexpected end of JSON input'')\<close>
    by (simp add: example_lib_def)
  show ?thesis
    using h1 h2 CreateTrace_malformed_config [OF h1 h2] by simp
qed

text \<open>
  C3. The three failures, of the decoder, of the tracer and of the encoder, are reported
  in one way. In each case the call returns, as its only result, a non-null C string that
  holds the context prefix of the failing step followed by the error's text, where the
  encoded results would have been. No collaborator is invoked twice (nothing is retried),
  and nothing but the string is returned.
\<close>
theorem CreateTrace_failures_reported_alike:
  assumes "C_GoString configStr st = Some s"
    and "(json_Unmarshal lib s = Inl err \<and> ctx = ''Failed to unmarshal config, err: '') \<or>
         (\<exists>config. json_Unmarshal lib s = Inr config \<and>
            gethutil_Trace lib config = Inl err \<and> ctx = ''Failed to run Trace, err: '') \<or>
         (\<exists>config rs. json_Unmarshal lib s = Inr config \<and>
            gethutil_Trace lib config = Inr rs \<and>
            json_MarshalIndent lib rs '''' ''  '' = Inl err \<and>
            ctx = ''Failed to marshal []ExecutionResult, err: '')"
  shows "\<exists>p st' calls.
           CreateTrace lib configStr st = Some (p, st') \<and>
           p \<noteq> 0 \<and>
           map_of (heap st') p = Some (ctx @ message err @ [NUL]) \<and>
           invoked st' = invoked st @ calls \<and> distinct calls"
proof -
  have "\<exists>st1 calls. CreateTrace lib configStr st = Some (C_CString (ctx @ message err) st1) \<and>
          invoked st1 = invoked st @ calls \<and> distinct calls"
    using assms(2)
  proof (elim disjE exE conjE)
    assume "json_Unmarshal lib s = Inl err" and "ctx = ''Failed to unmarshal config, err: ''"
    then have "CreateTrace lib configStr st =
        Some (C_CString (ctx @ message err) (called JsonUnmarshal st))"
      using CreateTrace_decode_failure [OF assms(1)] by simp
    moreover have "invoked (called JsonUnmarshal st) = invoked st @ [JsonUnmarshal]"
      by simp
    moreover have "distinct [JsonUnmarshal]" by simp
    ultimately show ?thesis by blast
  next
    fix config
    assume "json_Unmarshal lib s = Inr config" and "gethutil_Trace lib config = Inl err"
      and "ctx = ''Failed to run Trace, err: ''"
    then have "CreateTrace lib configStr st =
        Some (C_CString (ctx @ message err) (called GethutilTrace (called JsonUnmarshal st)))"
      using CreateTrace_trace_failure [OF assms(1)] by simp
    moreover have "invoked (called GethutilTrace (called JsonUnmarshal st)) =
        invoked st @ [JsonUnmarshal, GethutilTrace]"
      by simp
    moreover have "distinct [JsonUnmarshal, GethutilTrace]" by simp
    ultimately show ?thesis by blast
  next
    fix config rs
    assume "json_Unmarshal lib s = Inr config" and "gethutil_Trace lib config = Inr rs"
      and "json_MarshalIndent lib rs '''' ''  '' = Inl err"
      and "ctx = ''Failed to marshal []ExecutionResult, err: ''"
    then have "CreateTrace lib configStr st =
        Some (C_CString (ctx @ message err)
               (called JsonMarshalIndent (called GethutilTrace (called JsonUnmarshal st))))"
      using CreateTrace_encode_failure [OF assms(1)] by simp
    moreover have "invoked (called JsonMarshalIndent (called GethutilTrace (called JsonUnmarshal st))) =
        invoked st @ [JsonUnmarshal, GethutilTrace, JsonMarshalIndent]"
      by simp
    moreover have "distinct [JsonUnmarshal, GethutilTrace, JsonMarshalIndent]" by simp
    ultimately show ?thesis by blast
  qed
  then obtain st1 calls where
    ct: "CreateTrace lib configStr st = Some (C_CString (ctx @ message err) st1)"
    and inv: "invoked st1 = invoked st @ calls" and d: "distinct calls"
    by blast
  obtain p st' where r: "C_CString (ctx @ message err) st1 = (p, st')"
    by (rule prod.exhaust)
  have "CreateTrace lib configStr st = Some (p, st')" using ct r by simp
  moreover have "p \<noteq> 0" by (rule C_CString_reply(1) [OF r])
  moreover have "map_of (heap st') p = Some (ctx @ message err @ [NUL])"
    using C_CString_reply(4) [OF r] by simp
  moreover have "invoked st' = invoked st @ calls"
    using C_CString_reply(5) [OF r] inv by simp
  ultimately show ?thesis using d by blast
qed

theorem CreateTrace_failures_reported_alike_witness:
  \<open>(\<exists>p st' calls.
      CreateTrace (example_lib (Some JsonUnmarshal)) 1 example_state = Some (p, st') \<and>
      p \<noteq> 0 \<and>
      map_of (heap st') p =
        Some (''Failed to unmarshal config, err: '' @ ''unexpected end of JSON input'' @ [NUL]) \<and>
      invoked st' = invoked example_state @ calls \<and> distinct calls) \<and>
   (\<exists>p st' calls.
      CreateTrace (example_lib (Some GethutilTrace)) 1 example_state = Some (p, st') \<and>
      p \<noteq> 0 \<and>
      map_of (heap st') p =
        Some (''Failed to run Trace, err: '' @ ''insufficient funds'' @ [NUL]) \<and>
      invoked st' = invoked example_state @ calls \<and> distinct calls) \<and>
   (\<exists>p st' calls.
      CreateTrace (example_lib (Some JsonMarshalIndent)) 1 example_state = Some (p, st') \<and>
      p \<noteq> 0 \<and>
      map_of (heap st') p =
        Some (''Failed to marshal []ExecutionResult, err: '' @ ''unsupported value'' @ [NUL]) \<and>
      invoked st' = invoked example_state @ calls \<and> distinct calls)\<close>
proof -
  have h: \<open>C_GoString 1 example_state = Some ''{}''\<close>
    by (simp add: C_GoString_def example_state_def NUL_def)
  have d: \<open>json_Unmarshal (example_lib (Some JsonUnmarshal)) ''{}'' =
             Inl (Error ''unexpected end of JSON input'')\<close>
    by (simp add: example_lib_def)
  have t: \<open>json_Unmarshal (example_lib (Some GethutilTrace)) ''{}'' = Inr ''{}'' \<and>
           gethutil_Trace (example_lib (Some GethutilTrace)) ''{}'' =
             Inl (Error ''insufficient funds'')\<close>
    by (simp add: example_lib_def)
  have e: \<open>json_Unmarshal (example_lib (Some JsonMarshalIndent)) ''{}'' = Inr ''{}'' \<and>
           gethutil_Trace (example_lib (Some JsonMarshalIndent)) ''{}'' = Inr [2] \<and>
           json_MarshalIndent (example_lib (Some JsonMarshalIndent)) [2] '''' ''  '' =
             Inl (Error ''unsupported value'')\<close>
    by (simp add: example_lib_def)
  show ?thesis
    using
      CreateTrace_failures_reported_alike [OF h,
        of "example_lib (Some JsonUnmarshal)" "Error ''unexpected end of JSON input''"
           "''Failed to unmarshal config, err: ''"]
      CreateTrace_failures_reported_alike [OF h,
        of "example_lib (Some GethutilTrace)" "Error ''insufficient funds''"
           "''Failed to run Trace, err: ''"]
      CreateTrace_failures_reported_alike [OF h,
        of "example_lib (Some JsonMarshalIndent)" "Error ''unsupported value''"
           "''Failed to marshal []ExecutionResult, err: ''"]
      d t e
    by simp
qed

text \<open>
  C4. A second call of \<open>CreateTrace\<close> with the same argument, made in the state the first
  call left, returns a different pointer to the same bytes, and leaves the first reply as it
  was. (The collaborators are functions of their arguments, as the model takes them.)
\<close>
theorem CreateTrace_twice_same_output:
  assumes "CreateTrace lib configStr st = Some (p1, st1)"
  shows "\<exists>p2 st2 text.
           CreateTrace lib configStr st1 = Some (p2, st2) \<and>
           p2 \<noteq> p1 \<and>
           map_of (heap st1) p1 = Some (text @ [NUL]) \<and>
           map_of (heap st2) p2 = Some (text @ [NUL]) \<and>
           map_of (heap st2) p1 = Some (text @ [NUL])"
proof -
  from assms obtain s where s: "C_GoString configStr st = Some s"
    using CreateTrace_readable by blast
  from CreateTrace_replies [OF s, of lib] obtain out calls where
    reply: "\<And>st0 p. C_GoString p st0 = Some s \<Longrightarrow>
              CreateTrace lib p st0 = Some (C_CString out (st0\<lparr>invoked := invoked st0 @ calls\<rparr>))"
    by blast
  let ?st = "st\<lparr>invoked := invoked st @ calls\<rparr>"
  have first: "C_CString out ?st = (p1, st1)"
    using reply [OF s] assms by simp
  have h1: "heap st1 = (p1, out @ [NUL]) # heap st"
    using C_CString_reply(3) [OF first] by simp
  have fresh1: "p1 \<notin> fst ` set (heap st)" "p1 \<noteq> 0"
    using C_CString_reply(1,2) [OF first] by simp_all
  have s1: "C_GoString configStr st1 = Some s"
    by (rule C_GoString_after_alloc [OF s h1 fresh1])
  let ?st1 = "st1\<lparr>invoked := invoked st1 @ calls\<rparr>"
  obtain p2 st2 where second: "C_CString out ?st1 = (p2, st2)"
    by (rule prod.exhaust)
  have call2: "CreateTrace lib configStr st1 = Some (p2, st2)"
    using reply [OF s1] second by simp
  have h2: "heap st2 = (p2, out @ [NUL]) # heap st1"
    using C_CString_reply(3) [OF second] by simp
  have "p2 \<notin> fst ` set (heap st1)"
    using C_CString_reply(2) [OF second] by simp
  then have ne: "p2 \<noteq> p1" using h1 by auto
  have "map_of (heap st1) p1 = Some (out @ [NUL])" using h1 by simp
  moreover have "map_of (heap st2) p2 = Some (out @ [NUL])" using h2 by simp
  moreover have "map_of (heap st2) p1 = Some (out @ [NUL])" using h2 h1 ne by simp
  ultimately show ?thesis using call2 ne by blast
qed

theorem CreateTrace_twice_same_output_witness:
  \<open>CreateTrace (example_lib None) 1 example_state =
     Some (2, \<lparr>heap = [(2, ''[]'' @ [NUL]), (1, ''{}'' @ [NUL])],
               invoked = [JsonUnmarshal, GethutilTrace, JsonMarshalIndent]\<rparr>) \<and>
   (\<exists>p2 st2 text.
      CreateTrace (example_lib None) 1
        \<lparr>heap = [(2, ''[]'' @ [NUL]), (1, ''{}'' @ [NUL])],
         invoked = [JsonUnmarshal, GethutilTrace, JsonMarshalIndent]\<rparr> = Some (p2, st2) \<and>
      p2 \<noteq> 2 \<and>
      map_of [(2, ''[]'' @ [NUL]), (1, ''{}'' @ [NUL])] (2::nat) = Some (text @ [NUL]) \<and>
      map_of (heap st2) p2 = Some (text @ [NUL]) \<and>
      map_of (heap st2) 2 = Some (text @ [NUL]))\<close>
proof -
  have h: \<open>CreateTrace (example_lib None) 1 example_state =
     Some (2, \<lparr>heap = [(2, ''[]'' @ [NUL]), (1, ''{}'' @ [NUL])],
               invoked = [JsonUnmarshal, GethutilTrace, JsonMarshalIndent]\<rparr>)\<close>
    by (simp add: CreateTrace_def C_GoString_def C_CString_def fresh_addr_def called_def
          example_lib_def example_state_def NUL_def)
  show ?thesis
    using h CreateTrace_twice_same_output [OF h] by simp
qed

text \<open>
  C7. In \<open>main\<close>, a failure of the decoder, of the tracer or of the encoder ends the run in
  a panic carrying that error; nothing is printed and no value is returned.
\<close>
theorem main_failure_is_fatal:
  assumes "json_Unmarshal lib selftest_config = Inl err \<or>
           (\<exists>config. json_Unmarshal lib selftest_config = Inr config \<and>
              (gethutil_Trace lib config = Inl err \<or>
               (\<exists>rs. gethutil_Trace lib config = Inr rs \<and>
                  json_MarshalIndent lib rs '''' ''  '' = Inl err)))"
  shows "main lib = Panicked err"
  using assms unfolding main_def by (elim disjE exE conjE) simp_all

theorem main_failure_is_fatal_witness:
  \<open>main (example_lib (Some JsonUnmarshal)) = Panicked (Error ''unexpected end of JSON input'') \<and>
   main (example_lib (Some GethutilTrace)) = Panicked (Error ''insufficient funds'') \<and>
   main (example_lib (Some JsonMarshalIndent)) = Panicked (Error ''unsupported value'')\<close>
proof -
  have ne: "selftest_config \<noteq> []"
    by (simp add: selftest_config_def)
  have d: \<open>json_Unmarshal (example_lib (Some JsonUnmarshal)) selftest_config =
             Inl (Error ''unexpected end of JSON input'')\<close>
    by (simp add: example_lib_def)
  have t: \<open>json_Unmarshal (example_lib (Some GethutilTrace)) selftest_config = Inr selftest_config \<and>
           gethutil_Trace (example_lib (Some GethutilTrace)) selftest_config =
             Inl (Error ''insufficient funds'')\<close>
    using ne by (simp add: example_lib_def)
  have e: \<open>json_Unmarshal (example_lib (Some JsonMarshalIndent)) selftest_config = Inr selftest_config \<and>
           gethutil_Trace (example_lib (Some JsonMarshalIndent)) selftest_config =
             Inr [length selftest_config] \<and>
           json_MarshalIndent (example_lib (Some JsonMarshalIndent)) [length selftest_config] '''' ''  '' =
             Inl (Error ''unsupported value'')\<close>
    using ne by (simp add: example_lib_def)
  show ?thesis
    using
      main_failure_is_fatal [of "example_lib (Some JsonUnmarshal)"
        "Error ''unexpected end of JSON input''"]
      main_failure_is_fatal [of "example_lib (Some GethutilTrace)" "Error ''insufficient funds''"]
      main_failure_is_fatal [of "example_lib (Some JsonMarshalIndent)" "Error ''unsupported value''"]
      d t e
    by blast
qed

text \<open>
  C8. The pointer \<open>CreateTrace\<close> returns addresses a block that was not live before the
  call and is the one block the call added. \<open>FreeString\<close> on that pointer succeeds and leaves
  the heap as it was before \<open>CreateTrace\<close>; a second \<open>FreeString\<close> on it is undefined
  behaviour. So the string can be released once, and only once.
\<close>
theorem FreeString_releases_CreateTrace_result:
  assumes "CreateTrace lib configStr st = Some (p, st')"
  shows "p \<notin> fst ` set (heap st) \<and>
         (\<exists>text. heap st' = (p, text @ [NUL]) # heap st) \<and>
         (\<exists>st''. FreeString p st' = Some st'' \<and>
                 heap st'' = heap st \<and>
                 FreeString p st'' = None)"
proof -
  from assms obtain s where s: "C_GoString configStr st = Some s"
    using CreateTrace_readable by blast
  from CreateTrace_replies [OF s, of lib] obtain out calls where
    "CreateTrace lib configStr st = Some (C_CString out (st\<lparr>invoked := invoked st @ calls\<rparr>))"
    using s by blast
  with assms have r: "C_CString out (st\<lparr>invoked := invoked st @ calls\<rparr>) = (p, st')"
    by simp
  have fresh: "p \<notin> fst ` set (heap st)" and nn: "p \<noteq> 0"
    using C_CString_reply(1,2) [OF r] by simp_all
  have h: "heap st' = (p, out @ [NUL]) # heap st"
    using C_CString_reply(3) [OF r] by simp
  have "filter (\<lambda>b. fst b \<noteq> p) (heap st) = heap st"
    using fresh by (intro filter_True) auto
  then have rel: "FreeString p st' = Some (st'\<lparr>heap := heap st\<rparr>)"
    using h nn by (simp add: FreeString_def C_free_def)
  have again: "FreeString p (st'\<lparr>heap := heap st\<rparr>) = None"
    using fresh nn by (simp add: FreeString_def C_free_def)
  show ?thesis using fresh h rel again by simp
qed

theorem FreeString_releases_CreateTrace_result_witness:
  \<open>CreateTrace (example_lib None) 1 example_state =
     Some (2, \<lparr>heap = [(2, ''[]'' @ [NUL]), (1, ''{}'' @ [NUL])],
               invoked = [JsonUnmarshal, GethutilTrace, JsonMarshalIndent]\<rparr>) \<and>
   FreeString 2 \<lparr>heap = [(2, ''[]'' @ [NUL]), (1, ''{}'' @ [NUL])],
                 invoked = [JsonUnmarshal, GethutilTrace, JsonMarshalIndent]\<rparr> =
     Some \<lparr>heap = [(1, ''{}'' @ [NUL])],
           invoked = [JsonUnmarshal, GethutilTrace, JsonMarshalIndent]\<rparr> \<and>
   FreeString 2 \<lparr>heap = [(1, ''{}'' @ [NUL])],
                 invoked = [JsonUnmarshal, GethutilTrace, JsonMarshalIndent]\<rparr> = None\<close>
proof -
  have h: \<open>CreateTrace (example_lib None) 1 example_state =
     Some (2, \<lparr>heap = [(2, ''[]'' @ [NUL]), (1, ''{}'' @ [NUL])],
               invoked = [JsonUnmarshal, GethutilTrace, JsonMarshalIndent]\<rparr>)\<close>
    by (simp add: CreateTrace_def C_GoString_def C_CString_def fresh_addr_def called_def
          example_lib_def example_state_def NUL_def)
  show ?thesis
    using h FreeString_releases_CreateTrace_result [OF h]
    by (simp add: FreeString_def C_free_def example_state_def)
qed

text \<open>
  C9. For every readable argument (the null pointer, or a live NUL-terminated block)
  \<open>CreateTrace\<close> returns: its result is what \<open>C_CString\<close> built for some text, a pointer
  that is not null and was not live before, addressing a new block with that text and NUL.
\<close>
theorem CreateTrace_total:
  assumes "C_GoString configStr st = Some s"
  shows "\<exists>out st1 p st'.
           CreateTrace lib configStr st = Some (p, st') \<and>
           C_CString out st1 = (p, st') \<and>
           heap st1 = heap st \<and>
           p \<noteq> 0 \<and>
           p \<notin> fst ` set (heap st) \<and>
           heap st' = (p, out @ [NUL]) # heap st"
proof -
  from CreateTrace_replies [OF assms, of lib] obtain out calls where
    ct: "CreateTrace lib configStr st = Some (C_CString out (st\<lparr>invoked := invoked st @ calls\<rparr>))"
    using assms by blast
  let ?st1 = "st\<lparr>invoked := invoked st @ calls\<rparr>"
  obtain p st' where r: "C_CString out ?st1 = (p, st')"
    by (rule prod.exhaust)
  have "CreateTrace lib configStr st = Some (p, st')" using ct r by simp
  moreover have "heap ?st1 = heap st" by simp
  moreover have "p \<noteq> 0" by (rule C_CString_reply(1) [OF r])
  moreover have "p \<notin> fst ` set (heap st)" using C_CString_reply(2) [OF r] by simp
  moreover have "heap st' = (p, out @ [NUL]) # heap st" using C_CString_reply(3) [OF r] by simp
  ultimately show ?thesis using r by blast
qed

theorem CreateTrace_total_witness:
  \<open>C_GoString 0 example_state = Some [] \<and>
   (\<exists>out st1 p st'.
      CreateTrace (example_lib None) 0 example_state = Some (p, st') \<and>
      C_CString out st1 = (p, st') \<and>
      heap st1 = heap example_state \<and>
      p \<noteq> 0 \<and>
      p \<notin> fst ` set (heap example_state) \<and>
      heap st' = (p, out @ [NUL]) # heap example_state)\<close>
proof -
  have h: "C_GoString 0 example_state = Some []"
    by (simp add: C_GoString_def)
  show ?thesis
    using h CreateTrace_total [OF h, of "example_lib None"] by simp
qed

text \<open>
  C10. When a step fails, the reply starts with the context prefix of that step and with
  neither of the other two prefixes: the failing step can be read off the reply.
  \<open>failing\<close> names the step by the collaborator that returned the error.
\<close>
theorem CreateTrace_failure_prefixes_distinct:
  assumes "C_GoString configStr st = Some s"
    and "(json_Unmarshal lib s = Inl err \<and> failing = JsonUnmarshal) \<or>
         (\<exists>config. json_Unmarshal lib s = Inr config \<and>
            gethutil_Trace lib config = Inl err \<and> failing = GethutilTrace) \<or>
         (\<exists>config rs. json_Unmarshal lib s = Inr config \<and>
            gethutil_Trace lib config = Inr rs \<and>
            json_MarshalIndent lib rs '''' ''  '' = Inl err \<and> failing = JsonMarshalIndent)"
  shows "\<exists>p st' out.
           CreateTrace lib configStr st = Some (p, st') \<and>
           map_of (heap st') p = Some (out @ [NUL]) \<and>
           (prefix ''Failed to unmarshal config, err: '' out \<longleftrightarrow> failing = JsonUnmarshal) \<and>
           (prefix ''Failed to run Trace, err: '' out \<longleftrightarrow> failing = GethutilTrace) \<and>
           (prefix ''Failed to marshal []ExecutionResult, err: '' out
              \<longleftrightarrow> failing = JsonMarshalIndent)"
proof -
  have "\<exists>out st1. CreateTrace lib configStr st = Some (C_CString out st1) \<and>
          (prefix ''Failed to unmarshal config, err: '' out \<longleftrightarrow> failing = JsonUnmarshal) \<and>
          (prefix ''Failed to run Trace, err: '' out \<longleftrightarrow> failing = GethutilTrace) \<and>
          (prefix ''Failed to marshal []ExecutionResult, err: '' out
             \<longleftrightarrow> failing = JsonMarshalIndent)"
    using assms(2)
  proof (elim disjE exE conjE)
    assume "json_Unmarshal lib s = Inl err" and f: "failing = JsonUnmarshal"
    then have "CreateTrace lib configStr st =
        Some (C_CString (''Failed to unmarshal config, err: '' @ message err) (called JsonUnmarshal st))"
      using CreateTrace_decode_failure [OF assms(1)] by simp
    moreover have "prefix ''Failed to unmarshal config, err: ''
        (''Failed to unmarshal config, err: '' @ message err)"
      by (rule prefixI) simp
    moreover have "\<not> prefix ''Failed to run Trace, err: ''
        (''Failed to unmarshal config, err: '' @ message err)"
      by simp
    moreover have "\<not> prefix ''Failed to marshal []ExecutionResult, err: ''
        (''Failed to unmarshal config, err: '' @ message err)"
      by simp
    ultimately show ?thesis using f by blast
  next
    fix config
    assume "json_Unmarshal lib s = Inr config" and "gethutil_Trace lib config = Inl err"
      and f: "failing = GethutilTrace"
    then have "CreateTrace lib configStr st =
        Some (C_CString (''Failed to run Trace, err: '' @ message err)
               (called GethutilTrace (called JsonUnmarshal st)))"
      using CreateTrace_trace_failure [OF assms(1)] by simp
    moreover have "prefix ''Failed to run Trace, err: ''
        (''Failed to run Trace, err: '' @ message err)"
      by (rule prefixI) simp
    moreover have "\<not> prefix ''Failed to unmarshal config, err: ''
        (''Failed to run Trace, err: '' @ message err)"
      by simp
    moreover have "\<not> prefix ''Failed to marshal []ExecutionResult, err: ''
        (''Failed to run Trace, err: '' @ message err)"
      by simp
    ultimately show ?thesis using f by blast
  next
    fix config rs
    assume "json_Unmarshal lib s = Inr config" and "gethutil_Trace lib config = Inr rs"
      and "json_MarshalIndent lib rs '''' ''  '' = Inl err"
      and f: "failing = JsonMarshalIndent"
    then have "CreateTrace lib configStr st =
        Some (C_CString (''Failed to marshal []ExecutionResult, err: '' @ message err)
               (called JsonMarshalIndent (called GethutilTrace (called JsonUnmarshal st))))"
      using CreateTrace_encode_failure [OF assms(1)] by simp
    moreover have "prefix ''Failed to marshal []ExecutionResult, err: ''
        (''Failed to marshal []ExecutionResult, err: '' @ message err)"
      by (rule prefixI) simp
    moreover have "\<not> prefix ''Failed to unmarshal config, err: ''
        (''Failed to marshal []ExecutionResult, err: '' @ message err)"
      by simp
    moreover have "\<not> prefix ''Failed to run Trace, err: ''
        (''Failed to marshal []ExecutionResult, err: '' @ message err)"
      by simp
    ultimately show ?thesis using f by blast
  qed
  then obtain out st1 where
    ct: "CreateTrace lib configStr st = Some (C_CString out st1)"
    and pre: "prefix ''Failed to unmarshal config, err: '' out \<longleftrightarrow> failing = JsonUnmarshal"
      "prefix ''Failed to run Trace, err: '' out \<longleftrightarrow> failing = GethutilTrace"
      "prefix ''Failed to marshal []ExecutionResult, err: '' out \<longleftrightarrow> failing = JsonMarshalIndent"
    by blast
  obtain p st' where r: "C_CString out st1 = (p, st')"
    by (rule prod.exhaust)
  have "CreateTrace lib configStr st = Some (p, st')" using ct r by simp
  moreover have "map_of (heap st') p = Some (out @ [NUL])"
    by (rule C_CString_reply(4) [OF r])
  ultimately show ?thesis using pre by blast
qed

theorem CreateTrace_failure_prefixes_distinct_witness:
  \<open>(\<exists>p st' out.
      CreateTrace (example_lib (Some JsonUnmarshal)) 1 example_state = Some (p, st') \<and>
      map_of (heap st') p = Some (out @ [NUL]) \<and>
      prefix ''Failed to unmarshal config, err: '' out \<and>
      \<not> prefix ''Failed to run Trace, err: '' out \<and>
      \<not> prefix ''Failed to marshal []ExecutionResult, err: '' out) \<and>
   (\<exists>p st' out.
      CreateTrace (example_lib (Some GethutilTrace)) 1 example_state = Some (p, st') \<and>
      map_of (heap st') p = Some (out @ [NUL]) \<and>
      \<not> prefix ''Failed to unmarshal config, err: '' out \<and>
      prefix ''Failed to run Trace, err: '' out \<and>
      \<not> prefix ''Failed to marshal []ExecutionResult, err: '' out) \<and>
   (\<exists>p st' out.
      CreateTrace (example_lib (Some JsonMarshalIndent)) 1 example_state = Some (p, st') \<and>
      map_of (heap st') p = Some (out @ [NUL]) \<and>
      \<not> prefix ''Failed to unmarshal config, err: '' out \<and>
      \<not> prefix ''Failed to run Trace, err: '' out \<and>
      prefix ''Failed to marshal []ExecutionResult, err: '' out)\<close>
proof -
  have h: \<open>C_GoString 1 example_state = Some ''{}''\<close>
    by (simp add: C_GoString_def example_state_def NUL_def)
  have d: \<open>json_Unmarshal (example_lib (Some JsonUnmarshal)) ''{}'' =
             Inl (Error ''unexpected end of JSON input'')\<close>
    by (simp add: example_lib_def)
  have t: \<open>json_Unmarshal (example_lib (Some GethutilTrace)) ''{}'' = Inr ''{}'' \<and>
           gethutil_Trace (example_lib (Some GethutilTrace)) ''{}'' =
             Inl (Error ''insufficient funds'')\<close>
    by (simp add: example_lib_def)
  have e: \<open>json_Unmarshal (example_lib (Some JsonMarshalIndent)) ''{}'' = Inr ''{}'' \<and>
           gethutil_Trace (example_lib (Some JsonMarshalIndent)) ''{}'' = Inr [2] \<and>
           json_MarshalIndent (example_lib (Some JsonMarshalIndent)) [2] '''' ''  '' =
             Inl (Error ''unsupported value'')\<close>
    by (simp add: example_lib_def)
  show ?thesis
    using
      CreateTrace_failure_prefixes_distinct [OF h,
        of "example_lib (Some JsonUnmarshal)" "Error ''unexpected end of JSON input''"
           JsonUnmarshal]
      CreateTrace_failure_prefixes_distinct [OF h,
        of "example_lib (Some GethutilTrace)" "Error ''insufficient funds''" GethutilTrace]
      CreateTrace_failure_prefixes_distinct [OF h,
        of "example_lib (Some JsonMarshalIndent)" "Error ''unsupported value''"
           JsonMarshalIndent]
      d t e
    by simp
qed

end
